theory Spec2Isabelle
  imports Main "HOL-Library.Word"
begin

section \<open>Data of the indexing layer (cpp/pybind/core/tensor\_accessor.cpp)\<close>

text \<open>
  The file binds the indexing operator of the tensor class. Its own code is the six
  \<open>ToTensorKey\<close> overloads, the type-name ladder \<open>PyHandleToTensorKey\<close> and the
  registrations in \<open>pybind_core_tensor_accessor\<close>. Everything it calls lives
  elsewhere: the tensor engine (\<open>GetItem\<close>, \<open>SetItem\<close>, \<open>GetDtype\<close>, \<open>To\<close>), the
  converters \<open>PyTupleToTensor\<close> and \<open>PyArrayToTensor\<close>, and the host runtime
  (\<open>PySlice_Unpack\<close>, the argument casters of the binding framework). The engine's
  tensor type is the type variable \<open>'t\<close>, the external array type is \<open>'n\<close>, and the
  functions on them are the fields of a record that every definition takes as its first
  argument, so that each theorem holds for every behaviour of those collaborators.
\<close>

type_synonym c_int = "32 word"
type_synonym int64_t = "64 word"
type_synonym Py_ssize_t = "64 word"

text \<open>
  \<open>Dtype\<close>: the source names \<open>Dtype::Bool\<close> and \<open>Dtype::Int64\<close>; every other
  element type of the engine is \<open>OtherDtype\<close> with its name.
\<close>

datatype Dtype = Bool | Int64 | OtherDtype string

text \<open>
  Modelled from the spec: the class \<open>TensorKey\<close> (open3d/core/TensorKey.h) is the closed
  union of three variants, and its factories \<open>TensorKey::Index\<close>, \<open>TensorKey::Slice\<close>
  (start, stop, step and the three is-default flags) and \<open>TensorKey::IndexTensor\<close>
  record their arguments.
\<close>

datatype 't TensorKey =
    Index int64_t
  | Slice int64_t int64_t int64_t bool bool bool
  | IndexTensor 't

text \<open>
  Modelled from the spec: \<open>utility::LogError\<close> reports its formatted message and aborts
  the operation; \<open>LogError\<close> below is that failure with the message. \<open>cast_error\<close> is
  a failed \<open>item.cast<T>()\<close>, \<open>TypeError\<close> is the framework finding no overload
  that accepts the arguments, and \<open>CollaboratorError\<close> whatever a converter or the
  engine raises.
\<close>

datatype error =
    LogError string
  | cast_error
  | TypeError
  | CollaboratorError string

text \<open>
  A Python object as the layer sees it: the text of its class,
  \<open>item.get_type().str()\<close>, which the ladder compares, and the value that the casts
  and the argument casters read. The two are independent in the runtime: \<open>True\<close> has
  the class text of \<open>bool\<close> and an integer value, a \<open>TensorKey\<close> object has a class
  text that names \<open>open3d\<close> and no tensor value. A field of a slice is \<open>None\<close>, an
  integer, or any other object; Python integers are unbounded.
\<close>

datatype slice_field = NoneField | IntField int | ObjectField

datatype ('t, 'n) py_object =
    PyObject (type_str: string) (payload: "('t, 'n) py_payload")
and ('t, 'n) py_payload =
    IntVal int
  | SliceVal slice_field slice_field slice_field
  | ListVal "('t, 'n) py_object list"
  | TupleVal "('t, 'n) py_object list"
  | ArrayVal 'n
  | TensorVal 't
  | KeyVal "'t TensorKey"
  | OpaqueVal

text \<open>
  The locals \<open>start\<close>, \<open>stop\<close> and \<open>step\<close> of \<open>ToTensorKey(const py::slice&)\<close>
  are declared without a value and handed to \<open>PySlice_Unpack\<close> by address; its return
  code is not read. A successful unpacking writes all three; a failed one (a zero step, a
  field that is no integer) leaves some of them as they were, and the key then carries
  what the stack held. \<open>slice_locals\<close> is the contents of the three locals, in the
  order start, stop, step. Every function that may convert a slice takes the contents
  that the locals have on entry as an argument: \<open>u\<close> for one conversion, and for an
  operation that converts the items of a tuple a function \<open>g\<close>, where \<open>g i\<close> is what
  the conversion of item \<open>i\<close> finds. Nothing is assumed about them.
\<close>

type_synonym slice_locals = "Py_ssize_t \<times> Py_ssize_t \<times> Py_ssize_t"

text \<open>
  The collaborators. \<open>To_default_copy\<close> is the default of the second parameter of
  \<open>Tensor::To\<close>, which the array overload leaves out. \<open>PySlice_Unpack\<close> takes the
  three fields of the slice and the contents of the three locals before the call and
  gives their contents after it.
\<close>

record ('t, 'n) collab =
  GetDtype :: "'t \<Rightarrow> Dtype"
  To :: "'t \<Rightarrow> Dtype \<Rightarrow> bool \<Rightarrow> error + 't"
  To_default_copy :: bool
  PyTupleToTensor :: "('t, 'n) py_object list \<Rightarrow> error + 't"
  PyArrayToTensor :: "'n \<Rightarrow> bool \<Rightarrow> error + 't"
  PySlice_Unpack :: "slice_field \<Rightarrow> slice_field \<Rightarrow> slice_field \<Rightarrow> slice_locals \<Rightarrow> slice_locals"

text \<open>
  The terminal call into the engine. Each bound function ends in exactly one of these
  calls or fails before it; the result of a bound function is the failure or the call
  it makes.
\<close>

datatype 't engine_call =
    GetItem 't "'t TensorKey"
  | GetItem_vector 't "'t TensorKey list"
  | SetItem 't "'t TensorKey" 't
  | SetItem_vector 't "'t TensorKey list" 't

section \<open>The \<open>ToTensorKey\<close> overloads\<close>

text \<open>
  \<open>ToTensorKey(int key)\<close>: the parameter is a C \<open>int\<close>, 32 bits on every
  platform the library builds on; \<open>TensorKey::Index\<close> takes it as a 64-bit value,
  sign-extended.
\<close>

definition ToTensorKey_int :: "c_int \<Rightarrow> 't TensorKey" where
  "ToTensorKey_int key = Index (scast key)"

text \<open>
  \<open>ToTensorKey(const py::slice&)\<close>: the numbers are what the three locals hold after
  \<open>PySlice_Unpack\<close> (\<open>Py_ssize_t\<close> and \<open>int64_t\<close> have the same width), the
  flags are the \<open>None\<close> checks on the three fields of the slice object.
\<close>

definition ToTensorKey_slice ::
  "('t, 'n) collab \<Rightarrow> slice_locals \<Rightarrow> slice_field \<Rightarrow> slice_field \<Rightarrow> slice_field
     \<Rightarrow> 't TensorKey" where
  "ToTensorKey_slice c u slice_start slice_stop slice_step =
     (case PySlice_Unpack c slice_start slice_stop slice_step u of
        (start, stop, step) \<Rightarrow>
          Slice start stop step
            (slice_start = NoneField) (slice_stop = NoneField) (slice_step = NoneField))"

definition ToTensorKey_list ::
  "('t, 'n) collab \<Rightarrow> ('t, 'n) py_object list \<Rightarrow> error + 't TensorKey" where
  "ToTensorKey_list c key =
     (case PyTupleToTensor c key of
        Inl e \<Rightarrow> Inl e
      | Inr key_tensor \<Rightarrow>
          if GetDtype c key_tensor \<noteq> Bool
          then (case To c key_tensor Int64 False of
                  Inl e \<Rightarrow> Inl e
                | Inr key_tensor' \<Rightarrow> Inr (IndexTensor key_tensor'))
          else Inr (IndexTensor key_tensor))"

definition ToTensorKey_tuple ::
  "('t, 'n) collab \<Rightarrow> ('t, 'n) py_object list \<Rightarrow> error + 't TensorKey" where
  "ToTensorKey_tuple c key =
     (case PyTupleToTensor c key of
        Inl e \<Rightarrow> Inl e
      | Inr key_tensor \<Rightarrow>
          if GetDtype c key_tensor \<noteq> Bool
          then (case To c key_tensor Int64 False of
                  Inl e \<Rightarrow> Inl e
                | Inr key_tensor' \<Rightarrow> Inr (IndexTensor key_tensor'))
          else Inr (IndexTensor key_tensor))"

definition ToTensorKey_array ::
  "('t, 'n) collab \<Rightarrow> 'n \<Rightarrow> error + 't TensorKey" where
  "ToTensorKey_array c key =
     (case PyArrayToTensor c key False of
        Inl e \<Rightarrow> Inl e
      | Inr key_tensor \<Rightarrow>
          if GetDtype c key_tensor \<noteq> Bool
          then (case To c key_tensor Int64 (To_default_copy c) of
                  Inl e \<Rightarrow> Inl e
                | Inr key_tensor' \<Rightarrow> Inr (IndexTensor key_tensor'))
          else Inr (IndexTensor key_tensor))"

definition ToTensorKey_Tensor ::
  "('t, 'n) collab \<Rightarrow> 't \<Rightarrow> error + 't TensorKey" where
  "ToTensorKey_Tensor c key_tensor =
     (if GetDtype c key_tensor \<noteq> Bool
      then (case To c key_tensor Int64 False of
              Inl e \<Rightarrow> Inl e
            | Inr key_tensor' \<Rightarrow> Inr (IndexTensor key_tensor'))
      else Inr (IndexTensor key_tensor))"

section \<open>The type-name ladder \<open>PyHandleToTensorKey\<close>\<close>

text \<open>
  \<open>std::string::find\<close>: the first position at which the pattern occurs, \<open>None\<close> for
  \<open>npos\<close>.
\<close>

fun starts_with :: "string \<Rightarrow> string \<Rightarrow> bool" where
  "starts_with s [] = True"
| "starts_with [] (p # ps) = False"
| "starts_with (x # xs) (p # ps) = (x = p \<and> starts_with xs ps)"

fun str_find :: "string \<Rightarrow> string \<Rightarrow> nat option" where
  "str_find [] pat = (if pat = [] then Some 0 else None)"
| "str_find (x # xs) pat =
     (if starts_with (x # xs) pat then Some 0 else map_option Suc (str_find xs pat))"

text \<open>
  The casts of the ladder. \<open>item.cast<T>()\<close> gives the value when the object holds
  one of that kind and throws otherwise. \<open>static_cast<int64_t>\<close> of a \<open>py::int_\<close>
  reads the integer through \<open>PyLong_AsLong\<close>, which answers \<open>-1\<close> for a value
  outside 64 bits. The call \<open>ToTensorKey(static_cast<int64_t>(...))\<close> resolves to
  \<open>ToTensorKey(int)\<close>, the only overload an integer converts to, so the 64-bit
  value is narrowed to \<open>int\<close>: its low 32 bits.
\<close>

definition cast_int :: "('t, 'n) py_payload \<Rightarrow> error + int" where
  "cast_int p = (case p of IntVal v \<Rightarrow> Inr v | _ \<Rightarrow> Inl cast_error)"

definition cast_slice ::
  "('t, 'n) py_payload \<Rightarrow> error + (slice_field \<times> slice_field \<times> slice_field)" where
  "cast_slice p = (case p of SliceVal a b s \<Rightarrow> Inr (a, b, s) | _ \<Rightarrow> Inl cast_error)"

definition cast_list :: "('t, 'n) py_payload \<Rightarrow> error + ('t, 'n) py_object list" where
  "cast_list p = (case p of ListVal xs \<Rightarrow> Inr xs | _ \<Rightarrow> Inl cast_error)"

definition cast_tuple :: "('t, 'n) py_payload \<Rightarrow> error + ('t, 'n) py_object list" where
  "cast_tuple p = (case p of TupleVal xs \<Rightarrow> Inr xs | _ \<Rightarrow> Inl cast_error)"

definition cast_array :: "('t, 'n) py_payload \<Rightarrow> error + 'n" where
  "cast_array p = (case p of ArrayVal a \<Rightarrow> Inr a | _ \<Rightarrow> Inl cast_error)"

definition cast_Tensor :: "('t, 'n) py_payload \<Rightarrow> error + 't" where
  "cast_Tensor p = (case p of TensorVal t \<Rightarrow> Inr t | _ \<Rightarrow> Inl cast_error)"

definition PyLong_AsLong :: "int \<Rightarrow> int64_t" where
  "PyLong_AsLong v = (if - (2 ^ 63) \<le> v \<and> v < 2 ^ 63 then word_of_int v else - 1)"

definition narrow_to_int :: "int64_t \<Rightarrow> c_int" where
  "narrow_to_int x = ucast x"

definition PyHandleToTensorKey ::
  "('t, 'n) collab \<Rightarrow> slice_locals \<Rightarrow> ('t, 'n) py_object \<Rightarrow> error + 't TensorKey" where
  "PyHandleToTensorKey c u item =
     (let class_name = type_str item in
      if class_name = ''<class 'int'>'' then
        (case cast_int (payload item) of
           Inl e \<Rightarrow> Inl e
         | Inr v \<Rightarrow> Inr (ToTensorKey_int (narrow_to_int (PyLong_AsLong v))))
      else if class_name = ''<class 'slice'>'' then
        (case cast_slice (payload item) of
           Inl e \<Rightarrow> Inl e
         | Inr (a, b, s) \<Rightarrow> Inr (ToTensorKey_slice c u a b s))
      else if class_name = ''<class 'list'>'' then
        (case cast_list (payload item) of
           Inl e \<Rightarrow> Inl e
         | Inr xs \<Rightarrow> ToTensorKey_list c xs)
      else if class_name = ''<class 'tuple'>'' then
        (case cast_tuple (payload item) of
           Inl e \<Rightarrow> Inl e
         | Inr xs \<Rightarrow> ToTensorKey_tuple c xs)
      else if class_name = ''<class 'numpy.ndarray'>'' then
        (case cast_array (payload item) of
           Inl e \<Rightarrow> Inl e
         | Inr a \<Rightarrow> ToTensorKey_array c a)
      else if str_find class_name ''open3d'' \<noteq> None
              \<and> str_find class_name ''Tensor'' \<noteq> None then
        (case (case cast_Tensor (payload item) of
                 Inl e \<Rightarrow> Inl e
               | Inr tensor \<Rightarrow> ToTensorKey_Tensor c tensor) of
           Inl e \<Rightarrow> Inl (LogError ''Cannot cast index to Tensor.'')
         | Inr k \<Rightarrow> Inr k)
      else
        Inl (LogError (''PyHandleToTensorKey has invlaid key type '' @ class_name @ ''.'')))"

section \<open>The registrations of \<open>pybind_core_tensor_accessor\<close>\<close>

text \<open>
  The argument casters of the binding framework decide which overload receives a Python
  argument. A caster looks at the object itself, not at the text of its class: the
  caster of \<open>int\<close> accepts an integer that fits the 32 bits of a C \<open>int\<close> and
  rejects any other, the casters of \<open>py::slice\<close>, \<open>py::array\<close>, \<open>py::list\<close>,
  \<open>py::tuple\<close>, \<open>Tensor\<close> and \<open>TensorKey\<close> accept an object of that kind, and
  the caster of \<open>std::vector<TensorKey>\<close> accepts a sequence of \<open>TensorKey\<close>
  objects.
\<close>

definition load_int :: "('t, 'n) py_object \<Rightarrow> c_int option" where
  "load_int obj =
     (case payload obj of
        IntVal v \<Rightarrow> if - (2 ^ 31) \<le> v \<and> v < 2 ^ 31 then Some (word_of_int v) else None
      | _ \<Rightarrow> None)"

definition load_slice ::
  "('t, 'n) py_object \<Rightarrow> (slice_field \<times> slice_field \<times> slice_field) option" where
  "load_slice obj = (case payload obj of SliceVal a b s \<Rightarrow> Some (a, b, s) | _ \<Rightarrow> None)"

definition load_array :: "('t, 'n) py_object \<Rightarrow> 'n option" where
  "load_array obj = (case payload obj of ArrayVal a \<Rightarrow> Some a | _ \<Rightarrow> None)"

definition load_Tensor :: "('t, 'n) py_object \<Rightarrow> 't option" where
  "load_Tensor obj = (case payload obj of TensorVal t \<Rightarrow> Some t | _ \<Rightarrow> None)"

definition load_list :: "('t, 'n) py_object \<Rightarrow> ('t, 'n) py_object list option" where
  "load_list obj = (case payload obj of ListVal xs \<Rightarrow> Some xs | _ \<Rightarrow> None)"

definition load_tuple :: "('t, 'n) py_object \<Rightarrow> ('t, 'n) py_object list option" where
  "load_tuple obj = (case payload obj of TupleVal xs \<Rightarrow> Some xs | _ \<Rightarrow> None)"


fun load_all :: "('a \<Rightarrow> 'b option) \<Rightarrow> 'a list \<Rightarrow> 'b list option" where
  "load_all f [] = Some []"
| "load_all f (x # xs) =
     (case f x of
        None \<Rightarrow> None
      | Some y \<Rightarrow> (case load_all f xs of None \<Rightarrow> None | Some ys \<Rightarrow> Some (y # ys)))"


text \<open>
  The body of an overload, once its caster has accepted the key: the key is converted
  and the engine is called; a failure of the conversion leaves the body before the call.
\<close>

definition getitem_int :: "'t \<Rightarrow> c_int \<Rightarrow> error + 't engine_call" where
  "getitem_int tensor key = Inr (GetItem tensor (ToTensorKey_int key))"

definition getitem_slice ::
  "('t, 'n) collab \<Rightarrow> slice_locals \<Rightarrow> 't \<Rightarrow> slice_field \<times> slice_field \<times> slice_field
     \<Rightarrow> error + 't engine_call" where
  "getitem_slice c u tensor key =
     (case key of (a, b, s) \<Rightarrow> Inr (GetItem tensor (ToTensorKey_slice c u a b s)))"

definition getitem_array :: "('t, 'n) collab \<Rightarrow> 't \<Rightarrow> 'n \<Rightarrow> error + 't engine_call" where
  "getitem_array c tensor key =
     (case ToTensorKey_array c key of Inl e \<Rightarrow> Inl e | Inr tk \<Rightarrow> Inr (GetItem tensor tk))"

definition getitem_Tensor :: "('t, 'n) collab \<Rightarrow> 't \<Rightarrow> 't \<Rightarrow> error + 't engine_call" where
  "getitem_Tensor c tensor key =
     (case ToTensorKey_Tensor c key of Inl e \<Rightarrow> Inl e | Inr tk \<Rightarrow> Inr (GetItem tensor tk))"

definition getitem_list ::
  "('t, 'n) collab \<Rightarrow> 't \<Rightarrow> ('t, 'n) py_object list \<Rightarrow> error + 't engine_call" where
  "getitem_list c tensor key =
     (case ToTensorKey_list c key of Inl e \<Rightarrow> Inl e | Inr tk \<Rightarrow> Inr (GetItem tensor tk))"

text \<open>
  The loop of the tuple overload: \<open>tks\<close> grows by one key per item, in order, and the
  first item that fails ends the loop with its failure. The conversion of the first
  item of the remaining ones finds the locals as \<open>g 0\<close>, the next as \<open>g 1\<close>, and so
  on.
\<close>

fun push_keys ::
  "('t, 'n) collab \<Rightarrow> (nat \<Rightarrow> slice_locals) \<Rightarrow> ('t, 'n) py_object list \<Rightarrow> 't TensorKey list
     \<Rightarrow> error + 't TensorKey list" where
  "push_keys c g [] tks = Inr tks"
| "push_keys c g (item # rest) tks =
     (case PyHandleToTensorKey c (g 0) item of
        Inl e \<Rightarrow> Inl e
      | Inr tk \<Rightarrow> push_keys c (\<lambda>i. g (Suc i)) rest (tks @ [tk]))"

definition getitem_tuple ::
  "('t, 'n) collab \<Rightarrow> (nat \<Rightarrow> slice_locals) \<Rightarrow> 't \<Rightarrow> ('t, 'n) py_object list
     \<Rightarrow> error + 't engine_call" where
  "getitem_tuple c g tensor key =
     (case push_keys c g key [] of
        Inl e \<Rightarrow> Inl e
      | Inr tks \<Rightarrow> Inr (GetItem_vector tensor tks))"

text \<open>
  The six overloads of \<open>__getitem__\<close> in the order of their registration. Each is its
  caster followed by its body; \<open>None\<close> says that the caster rejected the key and the
  next overload is tried. When none accepts, the framework raises \<open>TypeError\<close>.
\<close>

definition accept :: "('a \<Rightarrow> 'b option) \<Rightarrow> ('b \<Rightarrow> 'r) \<Rightarrow> 'a \<Rightarrow> 'r option" where
  "accept caster body obj = map_option body (caster obj)"

definition getitem_overloads ::
  "('t, 'n) collab \<Rightarrow> (nat \<Rightarrow> slice_locals) \<Rightarrow> 't
     \<Rightarrow> (('t, 'n) py_object \<Rightarrow> (error + 't engine_call) option) list" where
  "getitem_overloads c g tensor =
     [accept load_int (getitem_int tensor),
      accept load_slice (getitem_slice c (g 0) tensor),
      accept load_array (getitem_array c tensor),
      accept load_Tensor (getitem_Tensor c tensor),
      accept load_list (getitem_list c tensor),
      accept load_tuple (getitem_tuple c g tensor)]"

fun try_overloads :: "('a \<Rightarrow> (error + 'r) option) list \<Rightarrow> 'a \<Rightarrow> error + 'r" where
  "try_overloads [] key = Inl TypeError"
| "try_overloads (f # fs) key =
     (case f key of Some r \<Rightarrow> r | None \<Rightarrow> try_overloads fs key)"

definition getitem ::
  "('t, 'n) collab \<Rightarrow> (nat \<Rightarrow> slice_locals) \<Rightarrow> 't \<Rightarrow> ('t, 'n) py_object
     \<Rightarrow> error + 't engine_call" where
  "getitem c g tensor key = try_overloads (getitem_overloads c g tensor) key"






section \<open>The write operator\<close>





section \<open>Reference definitions and sample values\<close>

text \<open>
  The normalisation of a selector in the words of the design: a Boolean selector is
  kept, any other is cast to 64-bit integer.
\<close>

definition normalize_selector :: "('t, 'n) collab \<Rightarrow> bool \<Rightarrow> 't \<Rightarrow> error + 't" where
  "normalize_selector c copy selector =
     (if GetDtype c selector = Bool then Inr selector else To c selector Int64 copy)"

definition wrap_selector :: "error + 't \<Rightarrow> error + 't TensorKey" where
  "wrap_selector r = (case r of Inl e \<Rightarrow> Inl e | Inr selector \<Rightarrow> Inr (IndexTensor selector))"

text \<open>
  The objects of the six recognised Python types, with the class text the runtime gives
  them, a \<open>TensorKey\<close> object and a \<open>float\<close>.
\<close>

definition py_int :: "int \<Rightarrow> ('t, 'n) py_object" where
  "py_int v = PyObject ''<class 'int'>'' (IntVal v)"

definition py_slice :: "slice_field \<Rightarrow> slice_field \<Rightarrow> slice_field \<Rightarrow> ('t, 'n) py_object" where
  "py_slice a b s = PyObject ''<class 'slice'>'' (SliceVal a b s)"

definition py_list :: "('t, 'n) py_object list \<Rightarrow> ('t, 'n) py_object" where
  "py_list xs = PyObject ''<class 'list'>'' (ListVal xs)"

definition py_tuple :: "('t, 'n) py_object list \<Rightarrow> ('t, 'n) py_object" where
  "py_tuple xs = PyObject ''<class 'tuple'>'' (TupleVal xs)"

definition py_ndarray :: "'n \<Rightarrow> ('t, 'n) py_object" where
  "py_ndarray a = PyObject ''<class 'numpy.ndarray'>'' (ArrayVal a)"


definition py_TensorKey :: "'t TensorKey \<Rightarrow> ('t, 'n) py_object" where
  "py_TensorKey k = PyObject ''<class 'open3d.pybind.core.TensorKey'>'' (KeyVal k)"

definition py_float :: "('t, 'n) py_object" where
  "py_float = PyObject ''<class 'float'>'' OpaqueVal"


text \<open>
  A small engine for the examples: a tensor is its element type and its elements, a
  cast changes the element type, a sequence of integers converts to a 64-bit integer
  tensor and any other sequence is refused, an external array converts as it is.
  \<open>demo_PySlice_Unpack\<close> does what the runtime documents, in its order. The step comes
  first: omitted it is 1, an object that is no integer ends the unpacking with nothing
  written, an integer is clipped to the range of \<open>Py_ssize_t\<close> and written, and a zero
  step ends the unpacking there. Then the start and then the stop: omitted it is the end
  of the range on the side that the sign of the step gives, an object that is no integer
  ends the unpacking, an integer is clipped and written. What is not written keeps the
  contents it had.
\<close>

type_synonym demo_tensor = "Dtype \<times> int list"

definition demo_int_of :: "(demo_tensor, demo_tensor) py_object \<Rightarrow> int option" where
  "demo_int_of obj = (case payload obj of IntVal v \<Rightarrow> Some v | _ \<Rightarrow> None)"

definition demo_PyTupleToTensor ::
  "(demo_tensor, demo_tensor) py_object list \<Rightarrow> error + demo_tensor" where
  "demo_PyTupleToTensor xs =
     (case load_all demo_int_of xs of
        Some vs \<Rightarrow> Inr (Int64, vs)
      | None \<Rightarrow> Inl (CollaboratorError ''cannot convert sequence''))"

definition clip_ssize :: "int \<Rightarrow> Py_ssize_t" where
  "clip_ssize v =
     (if v < - (2 ^ 63) then word_of_int (- (2 ^ 63))
      else if 2 ^ 63 - 1 < v then word_of_int (2 ^ 63 - 1)
      else word_of_int v)"

definition demo_unpack_stop :: "slice_field \<Rightarrow> slice_locals \<Rightarrow> slice_locals" where
  "demo_unpack_stop b u =
     (case u of (start, stop, step) \<Rightarrow>
        (case b of
           NoneField \<Rightarrow>
             (start,
              if sint step < 0 then word_of_int (- (2 ^ 63)) else word_of_int (2 ^ 63 - 1),
              step)
         | IntField v \<Rightarrow> (start, clip_ssize v, step)
         | ObjectField \<Rightarrow> (start, stop, step)))"

definition demo_unpack_start :: "slice_field \<Rightarrow> slice_field \<Rightarrow> slice_locals \<Rightarrow> slice_locals" where
  "demo_unpack_start a b u =
     (case u of (start, stop, step) \<Rightarrow>
        (case a of
           NoneField \<Rightarrow>
             demo_unpack_stop b
               (if sint step < 0 then word_of_int (2 ^ 63 - 1) else 0, stop, step)
         | IntField v \<Rightarrow> demo_unpack_stop b (clip_ssize v, stop, step)
         | ObjectField \<Rightarrow> (start, stop, step)))"

definition demo_PySlice_Unpack ::
  "slice_field \<Rightarrow> slice_field \<Rightarrow> slice_field \<Rightarrow> slice_locals \<Rightarrow> slice_locals" where
  "demo_PySlice_Unpack a b s u =
     (case u of (start, stop, step) \<Rightarrow>
        (case s of
           NoneField \<Rightarrow> demo_unpack_start a b (start, stop, 1)
         | IntField v \<Rightarrow>
             if clip_ssize v = 0 then (start, stop, 0)
             else if sint (clip_ssize v) < - (2 ^ 63 - 1)
             then demo_unpack_start a b (start, stop, word_of_int (- (2 ^ 63 - 1)))
             else demo_unpack_start a b (start, stop, clip_ssize v)
         | ObjectField \<Rightarrow> (start, stop, step)))"

definition demo :: "(demo_tensor, demo_tensor) collab" where
  "demo =
     \<lparr> GetDtype = fst,
       To = (\<lambda>t d copy. Inr (d, snd t)),
       To_default_copy = False,
       PyTupleToTensor = demo_PyTupleToTensor,
       PyArrayToTensor = (\<lambda>a inplace. Inr a),
       PySlice_Unpack = demo_PySlice_Unpack \<rparr>"

definition demo_self :: demo_tensor where
  "demo_self = (OtherDtype ''Float32'', [10, 20, 30, 40, 50])"

text \<open>Two contents of the stack for the examples.\<close>

definition demo_stack :: "nat \<Rightarrow> slice_locals" where
  "demo_stack i = (7, 8, 9)"

definition demo_stack' :: "nat \<Rightarrow> slice_locals" where
  "demo_stack' i = (70, 80, 90)"

section \<open>Auxiliary facts\<close>

lemma narrow_word_of_int: "(ucast (word_of_int v :: 64 word) :: 32 word) = word_of_int v"
  by (simp add: unsigned_of_int word_of_int_eq_iff)

lemma sign_extend_word_of_int:
  assumes "- (2 ^ 31) \<le> v" and "v < 2 ^ 31"
  shows "(scast (word_of_int v :: 32 word) :: 64 word) = word_of_int v"
  using assms by (simp add: signed_of_int signed_take_bit_int_eq_self)

text \<open>A class text that names \<open>open3d\<close> is none of the five literal class texts.\<close>

lemma open3d_not_builtin:
  assumes "str_find cn ''open3d'' \<noteq> None"
  shows "cn \<noteq> ''<class 'int'>''" "cn \<noteq> ''<class 'slice'>''" "cn \<noteq> ''<class 'list'>''"
        "cn \<noteq> ''<class 'tuple'>''" "cn \<noteq> ''<class 'numpy.ndarray'>''"
  using assms by auto

text \<open>Which overload of \<open>__getitem__\<close> receives a key of each kind.\<close>

lemmas getitem_unfold = getitem_def getitem_overloads_def accept_def load_int_def load_slice_def
  load_array_def load_Tensor_def load_list_def load_tuple_def


lemma getitem_SliceVal:
  "getitem c g tensor (PyObject cn (SliceVal a b s)) = getitem_slice c (g 0) tensor (a, b, s)"
  by (simp add: getitem_unfold)



lemma getitem_ListVal: "getitem c g tensor (PyObject cn (ListVal xs)) = getitem_list c tensor xs"
  by (simp add: getitem_unfold)

lemma getitem_TupleVal:
  "getitem c g tensor (PyObject cn (TupleVal xs)) = getitem_tuple c g tensor xs"
  by (simp add: getitem_unfold)










lemma ToTensorKey_list_gather: "ToTensorKey_list c xs = Inr k \<Longrightarrow> \<exists>selector. k = IndexTensor selector"
  by (auto simp add: ToTensorKey_list_def split: sum.splits if_splits)

lemma ToTensorKey_tuple_eq_list: "ToTensorKey_tuple c xs = ToTensorKey_list c xs"
  by (simp add: ToTensorKey_tuple_def ToTensorKey_list_def)

text \<open>
  Whether the ladder fails on an item, and with what, does not depend on what the
  locals of the slice conversion hold.
\<close>

lemma classify_failure_any_locals:
  assumes "PyHandleToTensorKey c u item = Inl e"
  shows "PyHandleToTensorKey c u' item = Inl e"
proof (cases "type_str item = ''<class 'slice'>''")
  case True
  with assms show ?thesis
    by (cases "cast_slice (payload item)") (auto simp add: PyHandleToTensorKey_def Let_def)
next
  case False
  then have "PyHandleToTensorKey c u item = PyHandleToTensorKey c u' item"
    by (simp add: PyHandleToTensorKey_def Let_def)
  with assms show ?thesis by simp
qed

text \<open>The loop of the tuple overload: what it returns, and when it fails.\<close>

lemma push_keys_nth:
  "length ks = length items
   \<Longrightarrow> (\<forall>i < length items. PyHandleToTensorKey c (g i) (items ! i) = Inr (ks ! i))
   \<Longrightarrow> push_keys c g items tks = Inr (tks @ ks)"
proof (induction items arbitrary: g tks ks)
  case Nil
  then show ?case by simp
next
  case (Cons item items)
  from Cons.prems(1) obtain k ks' where ks: "ks = k # ks'" and len: "length ks' = length items"
    by (cases ks) auto
  from Cons.prems(2) ks have first: "PyHandleToTensorKey c (g 0) item = Inr k" by auto
  have rest: "\<forall>i < length items. PyHandleToTensorKey c (g (Suc i)) (items ! i) = Inr (ks' ! i)"
  proof (intro allI impI)
    fix i assume "i < length items"
    then have "Suc i < length (item # items)" by simp
    with Cons.prems(2) ks show "PyHandleToTensorKey c (g (Suc i)) (items ! i) = Inr (ks' ! i)"
      by fastforce
  qed
  from Cons.IH [OF len, of "\<lambda>i. g (Suc i)" "tks @ [k]"] rest first ks show ?case by simp
qed

lemma push_keys_Inr:
  "push_keys c g items tks = Inr r
   \<Longrightarrow> \<exists>ks. r = tks @ ks \<and> length ks = length items
          \<and> (\<forall>i < length items. PyHandleToTensorKey c (g i) (items ! i) = Inr (ks ! i))"
proof (induction items arbitrary: g tks)
  case Nil
  then show ?case by simp
next
  case (Cons item items)
  then obtain k where k: "PyHandleToTensorKey c (g 0) item = Inr k"
    and rest: "push_keys c (\<lambda>i. g (Suc i)) items (tks @ [k]) = Inr r"
    by (auto split: sum.splits)
  from Cons.IH [OF rest] obtain ks where r: "r = (tks @ [k]) @ ks"
    and len: "length ks = length items"
    and nth: "\<forall>i < length items. PyHandleToTensorKey c (g (Suc i)) (items ! i) = Inr (ks ! i)"
    by blast
  have "\<forall>i < length (item # items).
          PyHandleToTensorKey c (g i) ((item # items) ! i) = Inr ((k # ks) ! i)"
  proof (intro allI impI)
    fix i assume i: "i < length (item # items)"
    show "PyHandleToTensorKey c (g i) ((item # items) ! i) = Inr ((k # ks) ! i)"
    proof (cases i)
      case 0
      with k show ?thesis by simp
    next
      case (Suc j)
      with i nth show ?thesis by simp
    qed
  qed
  with r len have "r = tks @ (k # ks) \<and> length (k # ks) = length (item # items)
      \<and> (\<forall>i < length (item # items).
            PyHandleToTensorKey c (g i) ((item # items) ! i) = Inr ((k # ks) ! i))"
    by simp
  then show ?case by blast
qed

lemma push_keys_fails:
  "item \<in> set items \<Longrightarrow> PyHandleToTensorKey c u item = Inl e
   \<Longrightarrow> \<exists>e'. push_keys c g items tks = Inl e'"
proof (induction items arbitrary: g tks)
  case Nil
  then show ?case by simp
next
  case (Cons x items)
  show ?case
  proof (cases "PyHandleToTensorKey c (g 0) x")
    case (Inl e0)
    then show ?thesis by simp
  next
    case (Inr k)
    have "x \<noteq> item"
    proof
      assume "x = item"
      with classify_failure_any_locals [OF Cons.prems(2), of "g 0"] Inr show False by simp
    qed
    with Cons.prems have "item \<in> set items" by auto
    from Cons.IH [OF this Cons.prems(2), of "\<lambda>i. g (Suc i)" "tks @ [k]"] Inr
    show ?thesis by simp
  qed
qed


text \<open>The ladder on an integer and on a \<open>float\<close>; the sample engine.\<close>

lemma classify_py_int:
  "PyHandleToTensorKey c u (py_int v) = Inr (ToTensorKey_int (narrow_to_int (PyLong_AsLong v)))"
  by (simp add: PyHandleToTensorKey_def py_int_def cast_int_def)

lemma classify_within_int:
  assumes "- (2 ^ 31) \<le> v" and "v < 2 ^ 31"
  shows "PyHandleToTensorKey c u (py_int v) = Inr (Index (word_of_int v))"
proof -
  from assms have "PyLong_AsLong v = word_of_int v" by (simp add: PyLong_AsLong_def)
  with assms show ?thesis
    by (simp add: classify_py_int narrow_to_int_def narrow_word_of_int ToTensorKey_int_def
        sign_extend_word_of_int)
qed

lemma classify_small:
  "PyHandleToTensorKey c u (py_int 3) = Inr (Index 3)"
  "PyHandleToTensorKey c u (py_int 4) = Inr (Index 4)"
  "PyHandleToTensorKey c u (py_int 5) = Inr (Index 5)"
  by (simp_all add: classify_py_int PyLong_AsLong_def narrow_to_int_def ToTensorKey_int_def)

lemma classify_float:
  "PyHandleToTensorKey c u py_float =
     Inl (LogError ''PyHandleToTensorKey has invlaid key type <class 'float'>.'')"
  by (simp add: PyHandleToTensorKey_def py_float_def)

lemma demo_simps:
  "GetDtype demo = fst" "To demo t d cp = Inr (d, snd t)" "To_default_copy demo = False"
  "PyTupleToTensor demo = demo_PyTupleToTensor" "PyArrayToTensor demo a ip = Inr a"
  "PySlice_Unpack demo = demo_PySlice_Unpack"
  by (simp_all add: demo_def)

lemma demo_To_dtype: "To demo t Int64 cp = Inr t' \<Longrightarrow> GetDtype demo t' = Int64"
  by (auto simp add: demo_simps)

lemma demo_To_same: "GetDtype demo t = Int64 \<Longrightarrow> To demo t Int64 cp = Inr t"
  by (cases t) (simp add: demo_simps)

lemma demo_list_345:
  "ToTensorKey_list demo [py_int 3, py_int 4, py_int 5] = Inr (IndexTensor (Int64, [3, 4, 5]))"
  by (simp add: ToTensorKey_list_def demo_simps demo_PyTupleToTensor_def demo_int_of_def py_int_def)

lemma demo_list_34:
  "ToTensorKey_list demo [py_int 3, py_int 4] = Inr (IndexTensor (Int64, [3, 4]))"
  by (simp add: ToTensorKey_list_def demo_simps demo_PyTupleToTensor_def demo_int_of_def py_int_def)

lemmas demo_unpack = demo_PySlice_Unpack_def demo_unpack_start_def demo_unpack_stop_def
  clip_ssize_def

lemma demo_unpack_None_5_None: "demo_PySlice_Unpack NoneField (IntField 5) NoneField u = (0, 5, 1)"
  by (cases u) (simp add: demo_unpack)

lemma demo_unpack_0_5_1:
  "demo_PySlice_Unpack (IntField 0) (IntField 5) (IntField 1) u = (0, 5, 1)"
  by (cases u) (simp add: demo_unpack)

lemma demo_unpack_zero_step:
  "demo_PySlice_Unpack NoneField (IntField 5) (IntField 0) (start, stop, step) = (start, stop, 0)"
  by (simp add: demo_unpack)

section \<open>The claims\<close>

text \<open>
  C1. A list and a tuple at the top level are treated differently. A top-level key that
  is a list is converted by \<open>ToTensorKey\<close> into one key, an \<open>IndexTensor\<close>, and that
  key goes to the single-key \<open>GetItem\<close>: whenever the conversion of the list gives a
  key, that call is made, and any call made for a list has this form. A top-level key
  that is a tuple of \<open>n\<close> items is classified item by item with
  \<open>PyHandleToTensorKey\<close> and the keys go, in the order of the items, to the
  multi-key \<open>GetItem\<close>: whenever every item gives a key, the call carries exactly those
  keys, and any call made for a tuple carries \<open>n\<close> keys, the one at position \<open>i\<close>
  being the key of item \<open>i\<close>.
\<close>

theorem list_vs_tuple_asymmetry:
  "(ToTensorKey_list c xs = Inr k \<longrightarrow>
      (\<exists>selector. k = IndexTensor selector)
      \<and> getitem c g tensor (PyObject cn (ListVal xs)) = Inr (GetItem tensor k))
   \<and> (getitem c g tensor (PyObject cn (ListVal xs)) = Inr call \<longrightarrow>
        (\<exists>selector. call = GetItem tensor (IndexTensor selector)))
   \<and> (length ks = length items
        \<and> (\<forall>i < length items. PyHandleToTensorKey c (g i) (items ! i) = Inr (ks ! i)) \<longrightarrow>
        getitem c g tensor (PyObject cn' (TupleVal items)) = Inr (GetItem_vector tensor ks))
   \<and> (getitem c g tensor (PyObject cn' (TupleVal items)) = Inr call' \<longrightarrow>
        (\<exists>ks'. call' = GetItem_vector tensor ks' \<and> length ks' = length items
           \<and> (\<forall>i < length items. PyHandleToTensorKey c (g i) (items ! i) = Inr (ks' ! i))))"
proof (intro conjI impI)
  assume k: "ToTensorKey_list c xs = Inr k"
  then show "\<exists>selector. k = IndexTensor selector" by (rule ToTensorKey_list_gather)
  from k show "getitem c g tensor (PyObject cn (ListVal xs)) = Inr (GetItem tensor k)"
    by (simp add: getitem_ListVal getitem_list_def)
next
  assume "getitem c g tensor (PyObject cn (ListVal xs)) = Inr call"
  then obtain k where "ToTensorKey_list c xs = Inr k" and "call = GetItem tensor k"
    by (auto simp add: getitem_ListVal getitem_list_def split: sum.splits)
  with ToTensorKey_list_gather [of c xs k]
  show "\<exists>selector. call = GetItem tensor (IndexTensor selector)" by auto
next
  assume a: "length ks = length items
      \<and> (\<forall>i < length items. PyHandleToTensorKey c (g i) (items ! i) = Inr (ks ! i))"
  then have "push_keys c g items [] = Inr ([] @ ks)" by (intro push_keys_nth) simp_all
  then show "getitem c g tensor (PyObject cn' (TupleVal items)) = Inr (GetItem_vector tensor ks)"
    by (simp add: getitem_TupleVal getitem_tuple_def)
next
  assume "getitem c g tensor (PyObject cn' (TupleVal items)) = Inr call'"
  then obtain tks where p: "push_keys c g items [] = Inr tks"
    and c: "call' = GetItem_vector tensor tks"
    by (auto simp add: getitem_TupleVal getitem_tuple_def split: sum.splits)
  from push_keys_Inr [OF p]
  have "length tks = length items
      \<and> (\<forall>i < length items. PyHandleToTensorKey c (g i) (items ! i) = Inr (tks ! i))"
    by simp
  with c show "\<exists>ks'. call' = GetItem_vector tensor ks' \<and> length ks' = length items
           \<and> (\<forall>i < length items. PyHandleToTensorKey c (g i) (items ! i) = Inr (ks' ! i))"
    by blast
qed

text \<open>
  The example of the source's comment: \<open>a[[3, 4, 5]]\<close> makes one call with one
  \<open>IndexTensor\<close> key, \<open>a[(3, 4, 5)]\<close> one call with three \<open>Index\<close> keys.
\<close>

theorem list_vs_tuple_asymmetry_witness:
  "getitem demo demo_stack demo_self (py_list [py_int 3, py_int 4, py_int 5])
     = Inr (GetItem demo_self (IndexTensor (Int64, [3, 4, 5])))
   \<and> getitem demo demo_stack demo_self (py_tuple [py_int 3, py_int 4, py_int 5])
     = Inr (GetItem_vector demo_self [Index 3, Index 4, Index 5])
   \<and> (\<exists>ks'. GetItem_vector demo_self [Index 3, Index 4, Index 5] = GetItem_vector demo_self ks'
         \<and> length ks' = 3
         \<and> (\<forall>i < 3. PyHandleToTensorKey demo (demo_stack i) ([py_int 3, py_int 4, py_int 5] ! i)
                     = Inr (ks' ! i)))"
proof -
  have t: "\<forall>i < length [py_int 3, py_int 4, py_int 5 :: (demo_tensor, demo_tensor) py_object].
             PyHandleToTensorKey demo (demo_stack i) ([py_int 3, py_int 4, py_int 5] ! i)
               = Inr ([Index 3, Index 4, Index 5] ! i)"
    by (simp add: classify_small nth_Cons' less_Suc_eq numeral_3_eq_3)
  from list_vs_tuple_asymmetry [of demo "[py_int 3, py_int 4, py_int 5]"
      "IndexTensor (Int64, [3, 4, 5])" demo_stack demo_self "''<class 'list'>''"
      "GetItem demo_self (IndexTensor (Int64, [3, 4, 5]))"
      "[Index 3, Index 4, Index 5]" "[py_int 3, py_int 4, py_int 5]" "''<class 'tuple'>''"
      "GetItem_vector demo_self [Index 3, Index 4, Index 5]"] demo_list_345 t
  show ?thesis by (simp add: py_list_def py_tuple_def)
qed

text \<open>
  C5. For every slice, each of the three flags of the \<open>Slice\<close> key is true exactly
  when the caller left that field of the slice \<open>None\<close>, whatever numbers the locals
  hold after \<open>PySlice_Unpack\<close> and whatever they held before; the slice \<open>None:5:None\<close>
  has the flags true, false, true. The ladder and the top-level overload both produce
  this key.
\<close>

theorem slice_default_flags:
  "ToTensorKey_slice c u a b s =
     Slice (fst (PySlice_Unpack c a b s u)) (fst (snd (PySlice_Unpack c a b s u)))
           (snd (snd (PySlice_Unpack c a b s u)))
           (a = NoneField) (b = NoneField) (s = NoneField)
   \<and> (\<exists>start stop step.
         ToTensorKey_slice c u NoneField (IntField 5) NoneField
           = Slice start stop step True False True)
   \<and> PyHandleToTensorKey c u (py_slice a b s) = Inr (ToTensorKey_slice c u a b s)
   \<and> getitem c g tensor (py_slice a b s) = Inr (GetItem tensor (ToTensorKey_slice c (g 0) a b s))"
  by (simp add: ToTensorKey_slice_def PyHandleToTensorKey_def py_slice_def cast_slice_def
      getitem_SliceVal getitem_slice_def split: prod.splits)

text \<open>
  With the sample runtime: \<open>None:5:None\<close> and \<open>0:5:1\<close> give the same numbers and
  different flags; for \<open>None:5:0\<close> the unpacking fails, start and stop are what the
  locals held, and the flags are still those of the fields.
\<close>

theorem slice_default_flags_witness:
  "ToTensorKey_slice demo (7, 8, 9) NoneField (IntField 5) NoneField
     = Slice 0 5 1 True False True
   \<and> ToTensorKey_slice demo (7, 8, 9) (IntField 0) (IntField 5) (IntField 1)
     = Slice 0 5 1 False False False
   \<and> ToTensorKey_slice demo (7, 8, 9) NoneField (IntField 5) (IntField 0)
     = Slice 7 8 0 True False False"
  using slice_default_flags [of demo "(7, 8, 9)" NoneField "IntField 5" NoneField]
    slice_default_flags [of demo "(7, 8, 9)" "IntField 0" "IntField 5" "IntField 1"]
    slice_default_flags [of demo "(7, 8, 9)" NoneField "IntField 5" "IntField 0"]
  by (simp add: demo_simps demo_unpack_None_5_None demo_unpack_0_5_1 demo_unpack_zero_step)

text \<open>
  C6. An item whose class text is none of the five literal texts (\<open>int\<close>, \<open>slice\<close>,
  \<open>list\<close>, \<open>tuple\<close>, \<open>numpy.ndarray\<close>) and does not name both \<open>open3d\<close> and
  \<open>Tensor\<close> makes the ladder fail with the error of its last branch, whose message
  carries the class text of the item; the ladder returns no key for it.
\<close>

theorem unsupported_type_fails:
  assumes "type_str item \<notin> {''<class 'int'>'', ''<class 'slice'>'', ''<class 'list'>'',
             ''<class 'tuple'>'', ''<class 'numpy.ndarray'>''}"
    and "str_find (type_str item) ''open3d'' = None \<or> str_find (type_str item) ''Tensor'' = None"
  shows "PyHandleToTensorKey c u item =
           Inl (LogError (''PyHandleToTensorKey has invlaid key type '' @ type_str item @ ''.''))
         \<and> (\<forall>k. PyHandleToTensorKey c u item \<noteq> Inr k)"
  using assms by (auto simp add: PyHandleToTensorKey_def Let_def)

theorem unsupported_type_fails_witness:
  "type_str (py_float :: (demo_tensor, demo_tensor) py_object)
      \<notin> {''<class 'int'>'', ''<class 'slice'>'', ''<class 'list'>'',
             ''<class 'tuple'>'', ''<class 'numpy.ndarray'>''}
   \<and> str_find (type_str (py_float :: (demo_tensor, demo_tensor) py_object)) ''open3d'' = None
   \<and> PyHandleToTensorKey demo (7, 8, 9) py_float
       = Inl (LogError ''PyHandleToTensorKey has invlaid key type <class 'float'>.'')
   \<and> (\<forall>k. PyHandleToTensorKey demo (7, 8, 9) py_float \<noteq> Inr k)"
  using unsupported_type_fails [of py_float demo "(7, 8, 9)"] by (simp add: py_float_def)

text \<open>
  C7. When one item of a top-level tuple fails to classify, the tuple overload fails
  and makes no call into the engine: the loop over the items ends with the failure
  before \<open>GetItem\<close> is reached, so nothing has been applied for the items before the
  failing one.
\<close>

theorem tuple_failure_makes_no_call:
  assumes "item \<in> set items" and "PyHandleToTensorKey c u item = Inl e"
  shows "(\<exists>e'. getitem c g tensor (PyObject cn (TupleVal items)) = Inl e')
         \<and> (\<forall>call. getitem c g tensor (PyObject cn (TupleVal items)) \<noteq> Inr call)"
proof -
  from push_keys_fails [OF assms, of g "[]"] obtain e' where "push_keys c g items [] = Inl e'"
    by blast
  then have "getitem c g tensor (PyObject cn (TupleVal items)) = Inl e'"
    by (simp add: getitem_TupleVal getitem_tuple_def)
  then show ?thesis by simp
qed

theorem tuple_failure_makes_no_call_witness:
  "py_float \<in> set [py_int 1, py_float, py_int 2]
   \<and> PyHandleToTensorKey demo (7, 8, 9) py_float
       = Inl (LogError ''PyHandleToTensorKey has invlaid key type <class 'float'>.'')
   \<and> (\<exists>e'. getitem demo demo_stack demo_self (py_tuple [py_int 1, py_float, py_int 2]) = Inl e')
   \<and> (\<forall>call. getitem demo demo_stack demo_self (py_tuple [py_int 1, py_float, py_int 2])
         \<noteq> Inr call)"
  using tuple_failure_makes_no_call [of py_float "[py_int 1, py_float, py_int 2]" demo
      "(7, 8, 9)" _ demo_stack demo_self "''<class 'tuple'>''", OF _ classify_float]
  by (simp add: classify_float py_tuple_def)

text \<open>
  C9. An item whose class text names both \<open>open3d\<close> and \<open>Tensor\<close> but which cannot
  be cast to a tensor makes the ladder fail with the error of the \<open>catch\<close> branch,
  \<open>Cannot cast index to Tensor.\<close>; the ladder returns no key, and the error is not the
  one of the last branch for any class text.
\<close>

theorem tensor_cast_failure:
  assumes "str_find (type_str item) ''open3d'' \<noteq> None"
    and "str_find (type_str item) ''Tensor'' \<noteq> None"
    and "cast_Tensor (payload item) = Inl e"
  shows "PyHandleToTensorKey c u item = Inl (LogError ''Cannot cast index to Tensor.'')
         \<and> (\<forall>k. PyHandleToTensorKey c u item \<noteq> Inr k)
         \<and> (\<forall>cn. PyHandleToTensorKey c u item \<noteq>
               Inl (LogError (''PyHandleToTensorKey has invlaid key type '' @ cn @ ''.'')))"
  using assms open3d_not_builtin [OF assms(1)] by (simp add: PyHandleToTensorKey_def Let_def)

text \<open>A \<open>TensorKey\<close> object used as an index is such an item.\<close>

theorem tensor_cast_failure_witness:
  "str_find (type_str (py_TensorKey (Index 0) :: (demo_tensor, demo_tensor) py_object))
      ''open3d'' \<noteq> None
   \<and> str_find (type_str (py_TensorKey (Index 0) :: (demo_tensor, demo_tensor) py_object))
      ''Tensor'' \<noteq> None
   \<and> cast_Tensor (payload (py_TensorKey (Index 0) :: (demo_tensor, demo_tensor) py_object))
      = Inl cast_error
   \<and> PyHandleToTensorKey demo (7, 8, 9) (py_TensorKey (Index 0))
      = Inl (LogError ''Cannot cast index to Tensor.'')"
proof -
  have a: "str_find (type_str (py_TensorKey (Index 0) :: (demo_tensor, demo_tensor) py_object))
      ''open3d'' \<noteq> None"
    by (simp add: py_TensorKey_def)
  have b: "str_find (type_str (py_TensorKey (Index 0) :: (demo_tensor, demo_tensor) py_object))
      ''Tensor'' \<noteq> None"
    by (simp add: py_TensorKey_def)
  have d: "cast_Tensor (payload (py_TensorKey (Index 0) :: (demo_tensor, demo_tensor) py_object))
      = Inl cast_error"
    by (simp add: py_TensorKey_def cast_Tensor_def)
  from tensor_cast_failure [OF a b d, of demo "(7, 8, 9)"] a b d show ?thesis by simp
qed

text \<open>
  C2, as the code has it. A tuple that is an item of a top-level tuple is not classified
  item by item: the ladder hands the whole nested tuple to \<open>ToTensorKey(py::tuple)\<close>,
  which converts it into one tensor and wraps it, exactly as a list is. The nested tuple
  gives one key, an \<open>IndexTensor\<close>, and takes one position in the sequence that the
  top-level tuple submits.
\<close>

theorem nested_tuple_is_one_gather:
  "PyHandleToTensorKey c u (py_tuple xs) = ToTensorKey_list c xs
   \<and> PyHandleToTensorKey c u (py_tuple xs) = PyHandleToTensorKey c u (py_list xs)
   \<and> (PyHandleToTensorKey c u (py_tuple xs) = Inr k \<longrightarrow> (\<exists>selector. k = IndexTensor selector))
   \<and> (PyHandleToTensorKey c (g 0) (py_tuple xs) = Inr k \<longrightarrow>
        getitem c g tensor (py_tuple [py_tuple xs]) = Inr (GetItem_vector tensor [k]))"
proof -
  have a: "PyHandleToTensorKey c u' (py_tuple xs) = ToTensorKey_list c xs" for u'
    by (simp add: PyHandleToTensorKey_def py_tuple_def cast_tuple_def ToTensorKey_tuple_eq_list)
  have b: "PyHandleToTensorKey c u (py_list xs) = ToTensorKey_list c xs"
    by (simp add: PyHandleToTensorKey_def py_list_def cast_list_def)
  have d: "PyHandleToTensorKey c (g 0) (py_tuple xs) = Inr k \<Longrightarrow>
        getitem c g tensor (py_tuple [py_tuple xs]) = Inr (GetItem_vector tensor [k])"
    by (simp add: py_tuple_def [of "[x]" for x] getitem_TupleVal getitem_tuple_def)
  from a [of u] a [of "g 0"] b d ToTensorKey_list_gather [of c xs k] show ?thesis by auto
qed

theorem nested_tuple_is_one_gather_witness:
  "PyHandleToTensorKey demo (7, 8, 9) (py_tuple [py_int 3, py_int 4])
       = Inr (IndexTensor (Int64, [3, 4]))
   \<and> PyHandleToTensorKey demo (7, 8, 9) (py_list [py_int 3, py_int 4])
       = Inr (IndexTensor (Int64, [3, 4]))
   \<and> getitem demo demo_stack demo_self (py_tuple [py_tuple [py_int 3, py_int 4]])
       = Inr (GetItem_vector demo_self [IndexTensor (Int64, [3, 4])])"
  using nested_tuple_is_one_gather [of demo "(7, 8, 9)" "[py_int 3, py_int 4]"
      "IndexTensor (Int64, [3, 4])" demo_stack demo_self] demo_list_34
  by (auto simp add: demo_stack_def)

text \<open>
  The claim as written fails on the nested tuple \<open>(3, 4)\<close>: it has two elements, the
  ladder gives the single key \<open>IndexTensor [3, 4]\<close> for it and not the keys
  \<open>Index 3\<close> and \<open>Index 4\<close>, and \<open>a[((3, 4),)]\<close> submits one key.
\<close>

theorem nested_tuple_counterexample:
  "PyHandleToTensorKey demo (7, 8, 9) (py_tuple [py_int 3, py_int 4])
       = Inr (IndexTensor (Int64, [3, 4]))
   \<and> getitem demo demo_stack demo_self (py_tuple [py_tuple [py_int 3, py_int 4]])
       = Inr (GetItem_vector demo_self [IndexTensor (Int64, [3, 4])])
   \<and> getitem demo demo_stack demo_self (py_tuple [py_tuple [py_int 3, py_int 4]])
       \<noteq> Inr (GetItem_vector demo_self [Index 3, Index 4])"
  by (simp add: PyHandleToTensorKey_def py_tuple_def cast_tuple_def ToTensorKey_tuple_def
      demo_simps demo_PyTupleToTensor_def demo_int_of_def py_int_def getitem_TupleVal
      getitem_tuple_def)



text \<open>
  C4. On each of the four paths that produce an \<open>IndexTensor\<close> (list, tuple as an
  item, external array, tensor) the selector is normalised before it is wrapped: a
  Boolean selector is wrapped as it is, any other is cast to \<open>Int64\<close> first. So
  normalising a Boolean selector changes nothing. For the second normalisation the
  engine's cast is assumed to keep its contract: the result of a cast to \<open>Int64\<close> has
  the element type \<open>Int64\<close>, and casting a tensor to the element type it has gives the
  same tensor. Then normalising the result of a normalisation gives that result again.
\<close>

theorem gather_dtype_normalization:
  assumes cast_dtype: "\<And>t cp t'. To c t Int64 cp = Inr t' \<Longrightarrow> GetDtype c t' = Int64"
    and cast_same: "\<And>t cp. GetDtype c t = Int64 \<Longrightarrow> To c t Int64 cp = Inr t"
  shows "ToTensorKey_list c xs =
           (case PyTupleToTensor c xs of
              Inl e \<Rightarrow> Inl e
            | Inr t \<Rightarrow> wrap_selector (normalize_selector c False t))
       \<and> ToTensorKey_tuple c xs =
           (case PyTupleToTensor c xs of
              Inl e \<Rightarrow> Inl e
            | Inr t \<Rightarrow> wrap_selector (normalize_selector c False t))
       \<and> ToTensorKey_array c a =
           (case PyArrayToTensor c a False of
              Inl e \<Rightarrow> Inl e
            | Inr t \<Rightarrow> wrap_selector (normalize_selector c (To_default_copy c) t))
       \<and> ToTensorKey_Tensor c selector = wrap_selector (normalize_selector c False selector)
       \<and> (GetDtype c selector = Bool \<longrightarrow> normalize_selector c cp selector = Inr selector)
       \<and> (GetDtype c selector \<noteq> Bool \<longrightarrow>
            normalize_selector c cp selector = To c selector Int64 cp)
       \<and> (GetDtype c selector \<noteq> Bool \<and> normalize_selector c cp selector = Inr once \<longrightarrow>
            GetDtype c once = Int64 \<and> normalize_selector c cp' once = Inr once)"
proof (intro conjI impI)
  show "ToTensorKey_list c xs =
           (case PyTupleToTensor c xs of
              Inl e \<Rightarrow> Inl e
            | Inr t \<Rightarrow> wrap_selector (normalize_selector c False t))"
    by (simp add: ToTensorKey_list_def wrap_selector_def normalize_selector_def split: sum.splits)
  show "ToTensorKey_tuple c xs =
           (case PyTupleToTensor c xs of
              Inl e \<Rightarrow> Inl e
            | Inr t \<Rightarrow> wrap_selector (normalize_selector c False t))"
    by (simp add: ToTensorKey_tuple_def wrap_selector_def normalize_selector_def split: sum.splits)
  show "ToTensorKey_array c a =
           (case PyArrayToTensor c a False of
              Inl e \<Rightarrow> Inl e
            | Inr t \<Rightarrow> wrap_selector (normalize_selector c (To_default_copy c) t))"
    by (simp add: ToTensorKey_array_def wrap_selector_def normalize_selector_def split: sum.splits)
  show "ToTensorKey_Tensor c selector = wrap_selector (normalize_selector c False selector)"
    by (simp add: ToTensorKey_Tensor_def wrap_selector_def normalize_selector_def split: sum.splits)
next
  assume "GetDtype c selector = Bool"
  then show "normalize_selector c cp selector = Inr selector"
    by (simp add: normalize_selector_def)
next
  assume "GetDtype c selector \<noteq> Bool"
  then show "normalize_selector c cp selector = To c selector Int64 cp"
    by (simp add: normalize_selector_def)
next
  assume "GetDtype c selector \<noteq> Bool \<and> normalize_selector c cp selector = Inr once"
  then have "To c selector Int64 cp = Inr once" by (auto simp add: normalize_selector_def)
  then show d: "GetDtype c once = Int64" by (rule cast_dtype)
  from cast_same [OF d] d show "normalize_selector c cp' once = Inr once"
    by (simp add: normalize_selector_def)
qed

theorem gather_dtype_normalization_witness:
  "normalize_selector demo False (OtherDtype ''Int32'', [1, 2]) = Inr (Int64, [1, 2])
   \<and> normalize_selector demo False (Int64, [1, 2]) = Inr (Int64, [1, 2])
   \<and> normalize_selector demo False (Bool, [1, 0]) = Inr (Bool, [1, 0])
   \<and> ToTensorKey_Tensor demo (OtherDtype ''Int32'', [1, 2]) = Inr (IndexTensor (Int64, [1, 2]))
   \<and> ToTensorKey_Tensor demo (Bool, [1, 0]) = Inr (IndexTensor (Bool, [1, 0]))"
proof -
  have n: "normalize_selector demo False (OtherDtype ''Int32'', [1, 2]) = Inr (Int64, [1, 2])"
    by (simp add: normalize_selector_def demo_simps)
  from gather_dtype_normalization [of demo _ _ "(OtherDtype ''Int32'', [1, 2])" False
        "(Int64, [1, 2])" False, OF demo_To_dtype demo_To_same]
       gather_dtype_normalization [of demo _ _ "(Bool, [1, 0])" False _ False,
        OF demo_To_dtype demo_To_same] n
  show ?thesis by (simp add: demo_simps wrap_selector_def)
qed

text \<open>
  C8, on the code. An integer item of a tuple is read as a 64-bit value and then passed
  to \<open>ToTensorKey(int)\<close>, which takes 32 bits. The key does not carry the caller's
  value when that value does not fit a C \<open>int\<close>: the item \<open>4294967296\<close> gives the
  key \<open>Index 0\<close> and the item \<open>2147483648\<close> gives \<open>Index (-2147483648)\<close>. (An
  integer that fits is carried unchanged, negative ones included: lemma
  \<open>classify_within_int\<close>.)
\<close>

theorem tuple_index_narrowed_to_int:
  "PyHandleToTensorKey c u (py_int 4294967296) = Inr (Index 0)
   \<and> PyHandleToTensorKey c u (py_int 2147483648) = Inr (Index (- 2147483648))
   \<and> sint (0 :: int64_t) \<noteq> 4294967296
   \<and> sint (- 2147483648 :: int64_t) \<noteq> 2147483648"
  by (simp add: classify_py_int PyLong_AsLong_def narrow_to_int_def ToTensorKey_int_def)




text \<open>
  Why the slices of C10 are those that unpack: for \<open>None:5:0\<close> the sample runtime
  stops at the zero step, and the two paths give keys with the numbers their locals
  held.
\<close>

lemma failed_unpack_keys_differ:
  "PyHandleToTensorKey demo (7, 8, 9) (py_slice NoneField (IntField 5) (IntField 0))
     = Inr (Slice 7 8 0 True False False)
   \<and> getitem demo demo_stack' demo_self (py_slice NoneField (IntField 5) (IntField 0))
     = Inr (GetItem demo_self (Slice 70 80 0 True False False))"
  by (simp add: PyHandleToTensorKey_def py_slice_def cast_slice_def getitem_SliceVal
      getitem_slice_def ToTensorKey_slice_def demo_simps demo_unpack_zero_step demo_stack'_def)

end
